theory Spec2Isabelle
  imports Main "HOL-Library.Word"
begin

section \<open>Data model (pgha.h)\<close>

text \<open>
  A node record of the shared registry. The C strings \<open>name\<close> and \<open>conninfo\<close> are the
  bytes before the terminating NUL, so \<open>strcmp(a, b) == 0\<close> is equality of the lists.
  \<open>retry_count\<close> is a C \<open>int\<close>: a 32-bit word, read with \<open>sint\<close>; PostgreSQL and its
  extensions are compiled with \<open>-fwrapv\<close>, so \<open>retry_count++\<close> is word addition.
  The spinlock \<open>mutex\<close> only orders concurrent updates of \<open>retry_count\<close>; the model
  is sequential and leaves it out.
\<close>

record PgHaNode =
  name :: string
  conninfo :: string
  type :: char
  in_use :: bool
  myself :: bool
  live :: bool
  is_sync :: bool
  retry_count :: "32 word"

text \<open>
  The control structure in shared memory. \<open>nodes\<close> is the flexible array member;
  \<open>pgha_shmemsize\<close> gives it \<open>pgha_max_nodes\<close> slots and \<open>pgha_max_nodes\<close> is fixed
  once the server has started (PGC_POSTMASTER), so the length of the list is
  \<open>pgha_max_nodes\<close>. The field \<open>lock\<close> is a pointer that never changes; what the
  process holds of the lock it points to is \<open>held_lwlocks\<close> below. \<open>n_nodes\<close> is a C
  \<open>int\<close>; the model changes it by one only where it indexes a slot of the array, so
  with \<open>pgha_max_nodes \<le> INT_MAX\<close> it cannot wrap and is an \<open>int\<close> here.
\<close>

record PgHaCtlData =
  n_nodes :: int
  nodes :: "PgHaNode list"

datatype LWLockMode = LW_EXCLUSIVE | LW_SHARED

text \<open>
  What a process that has loaded the module sees: the shared registry, the modes in
  which it holds \<open>PgHaCtl->lock\<close> itself (most recent first), and PostgreSQL's
  \<open>InRecovery\<close>.
\<close>

record backend =
  PgHaCtl :: PgHaCtlData
  held_lwlocks :: "LWLockMode list"
  InRecovery :: bool

definition pgha_max_nodes :: "'a backend_scheme \<Rightarrow> nat" where
  "pgha_max_nodes s = length (nodes (PgHaCtl s))"

text \<open>\<open>#define am_master() (!InRecovery)\<close>\<close>

definition am_master :: "'a backend_scheme \<Rightarrow> bool" where
  "am_master s = (\<not> InRecovery s)"

text \<open>The buffer sizes of PostgreSQL's \<open>pg_config_manual.h\<close>.\<close>

definition NAMEDATALEN :: nat where
  "NAMEDATALEN = 64"

definition MAXPGPATH :: nat where
  "MAXPGPATH = 1024"

section \<open>Outcomes of a call\<close>

text \<open>
  \<open>ereport(ERROR, ...)\<close> does not return to the caller: it is the outcome \<open>Error\<close>,
  with the state at the point of the report. The constructors follow the messages of
  the source.
\<close>

datatype error =
    DuplicateNode         \<comment> \<open>duplicate node name\<close>
  | NodeNotFound          \<comment> \<open>didn't find given name node\<close>
  | NotMaster             \<comment> \<open>join_node can be executed only on master node\<close>
  | FeatureNotSupported   \<comment> \<open>the caller cannot accept a materialized set\<close>
  | NotRowType            \<comment> \<open>return type must be a row type\<close>
  | InvalidConfiguration  \<comment> \<open>the three reports of checkParameter\<close>
  | FailoverActionFailed  \<comment> \<open>the two reports of changeToAsync\<close>
  | LockNotHeld           \<comment> \<open>LWLockRelease of a lock the process does not hold\<close>

text \<open>
  Where the C code leaves the objects it may touch, no state is defined afterwards:
  an access to \<open>nodes[i]\<close> outside the array, a \<open>strcpy\<close> longer than its buffer,
  or the use of a string parameter that is NULL.
\<close>

datatype undefined_behaviour =
    NodesIndexOutOfRange int
  | StrcpyOverflow
  | NullPointer

text \<open>
  \<open>SelfDeadlock\<close>: the call never returns, because the process waits for a lock it
  holds itself.
\<close>

datatype ('a, 's) result =
    Return 'a 's
  | Error error 's
  | Undefined undefined_behaviour
  | SelfDeadlock

definition and_then ::
  "('a, 's) result \<Rightarrow> ('a \<Rightarrow> 's \<Rightarrow> ('b, 's) result) \<Rightarrow> ('b, 's) result" where
  "and_then r f =
     (case r of
        Return a s \<Rightarrow> f a s
      | Error e s \<Rightarrow> Error e s
      | Undefined u \<Rightarrow> Undefined u
      | SelfDeadlock \<Rightarrow> SelfDeadlock)"

section \<open>The registry lock\<close>

text \<open>
  PostgreSQL's lightweight locks, as one process meets them when no other process
  holds the lock: they are not re-entrant, so asking for a mode that conflicts with
  a mode the process already holds waits forever.
\<close>

definition LWLockAcquire ::
  "LWLockMode \<Rightarrow> 'a backend_scheme \<Rightarrow> (unit, 'a backend_scheme) result" where
  "LWLockAcquire mode s =
     (if LW_EXCLUSIVE \<in> set (held_lwlocks s) \<or> (mode = LW_EXCLUSIVE \<and> held_lwlocks s \<noteq> [])
      then SelfDeadlock
      else Return () (s\<lparr>held_lwlocks := mode # held_lwlocks s\<rparr>))"

definition LWLockRelease :: "'a backend_scheme \<Rightarrow> (unit, 'a backend_scheme) result" where
  "LWLockRelease s =
     (case held_lwlocks s of
        [] \<Rightarrow> Error LockNotHeld s
      | m # rest \<Rightarrow> Return () (s\<lparr>held_lwlocks := rest\<rparr>))"

section \<open>Initialisation (pgha_shmem_startup)\<close>

text \<open>
  The branch \<open>!found\<close>: \<open>n_nodes = 0\<close> and every slot gets \<open>in_use = false\<close>; the
  other fields keep what the fresh shared memory holds (\<open>raw\<close>).
\<close>

definition pgha_shmem_startup :: "PgHaNode list \<Rightarrow> PgHaCtlData" where
  "pgha_shmem_startup raw = \<lparr>n_nodes = 0, nodes = map (\<lambda>n. n\<lparr>in_use := False\<rparr>) raw\<rparr>"

text \<open>\<open>memset(..., 0, sizeof(PgHaNode))\<close>\<close>

definition zero_node :: PgHaNode where
  "zero_node =
     \<lparr>name = [], conninfo = [], type = CHR 0x00, in_use = False, myself = False,
      live = False, is_sync = False, retry_count = 0\<rparr>"

section \<open>Registry operations\<close>

text \<open>
  \<open>debug_show\<close> takes the lock in shared mode, writes one WARNING line per in-use
  slot and releases the lock; the lines are not part of the state.
\<close>

definition debug_show :: "'a backend_scheme \<Rightarrow> (unit, 'a backend_scheme) result" where
  "debug_show s = and_then (LWLockAcquire LW_SHARED s) (\<lambda>_ s1. LWLockRelease s1)"

text \<open>
  The uniqueness loop of \<open>addNode\<close>: \<open>None\<close> when the loop runs to its end,
  otherwise what the first slot that is in use under the given name makes it do.
\<close>

primrec addNode_loop :: "PgHaNode list \<Rightarrow> string \<Rightarrow> bool \<Rightarrow> (error + bool) option" where
  "addNode_loop [] nm dup_ok = None"
| "addNode_loop (node # rest) nm dup_ok =
     (if in_use node \<and> name node = nm
      then (if \<not> dup_ok then Some (Inl DuplicateNode) else Some (Inr True))
      else addNode_loop rest nm dup_ok)"

text \<open>
  \<open>addNode\<close>. The two early exits of the loop leave the function with the lock still
  held. The new record is written to \<open>nodes[n_nodes]\<close> with no check of \<open>n_nodes\<close>
  against the capacity, and \<open>strcpy\<close> does not check the lengths.
\<close>

definition addNode ::
  "string \<Rightarrow> string \<Rightarrow> bool \<Rightarrow> bool \<Rightarrow> 'a backend_scheme \<Rightarrow> (bool, 'a backend_scheme) result" where
  "addNode nm ci self dup_ok s =
     and_then (LWLockAcquire LW_EXCLUSIVE s) (\<lambda>_ s1.
       case addNode_loop (nodes (PgHaCtl s1)) nm dup_ok of
         Some (Inl e) \<Rightarrow> Error e s1
       | Some (Inr b) \<Rightarrow> Return b s1
       | None \<Rightarrow>
           (let n = n_nodes (PgHaCtl s1); ns = nodes (PgHaCtl s1) in
            if n < 0 \<or> int (length ns) \<le> n then Undefined (NodesIndexOutOfRange n)
            else if NAMEDATALEN \<le> length nm \<or> MAXPGPATH \<le> length ci then Undefined StrcpyOverflow
            else
              (let new_node = (ns ! nat n)
                     \<lparr>name := nm, conninfo := ci, type := (if am_master s1 then CHR ''m'' else CHR ''s''),
                      in_use := True, myself := self, is_sync := False, retry_count := 0\<rparr>;
                   s2 = s1\<lparr>PgHaCtl := \<lparr>n_nodes = n + 1, nodes = ns[nat n := new_node]\<rparr>\<rparr>
               in and_then (LWLockRelease s2) (\<lambda>_ s3.
                    and_then (debug_show s3) (\<lambda>_ s4. Return True s4)))))"

text \<open>
  The search loop of \<open>delNode\<close>: the index of the first slot in use under the name.
\<close>

primrec delNode_loop :: "PgHaNode list \<Rightarrow> string \<Rightarrow> nat option" where
  "delNode_loop [] nm = None"
| "delNode_loop (node # rest) nm =
     (if in_use node \<and> name node = nm then Some 0
      else map_option Suc (delNode_loop rest nm))"

text \<open>
  \<open>delNode\<close>. \<open>ereport(ERROR)\<close> leaves the function before the \<open>LWLockRelease\<close> that
  follows it in the not-found branch. The found slot receives a copy of
  \<open>nodes[n_nodes]\<close>, which is then zeroed; there is no check of \<open>n_nodes\<close>.
  (When the found slot is \<open>nodes[n_nodes]\<close> itself the \<open>memcpy\<close> copies a slot onto
  itself and changes nothing.)
\<close>

definition delNode :: "string \<Rightarrow> 'a backend_scheme \<Rightarrow> (bool, 'a backend_scheme) result" where
  "delNode nm s =
     and_then (LWLockAcquire LW_EXCLUSIVE s) (\<lambda>_ s1.
       case delNode_loop (nodes (PgHaCtl s1)) nm of
         None \<Rightarrow> Error NodeNotFound s1
       | Some i \<Rightarrow>
           (let n = n_nodes (PgHaCtl s1); ns = nodes (PgHaCtl s1) in
            if n < 0 \<or> int (length ns) \<le> n then Undefined (NodesIndexOutOfRange n)
            else
              (let ns1 = ns[i := ns ! nat n];
                   ns2 = ns1[nat n := zero_node];
                   s2 = s1\<lparr>PgHaCtl := \<lparr>n_nodes = n - 1, nodes = ns2\<rparr>\<rparr>
               in and_then (LWLockRelease s2) (\<lambda>_ s3.
                    and_then (debug_show s3) (\<lambda>_ s4. Return True s4)))))"

text \<open>\<open>get_hanode_count\<close>: the counter, read under the shared lock.\<close>

definition get_hanode_count :: "'a backend_scheme \<Rightarrow> (int, 'a backend_scheme) result" where
  "get_hanode_count s =
     and_then (LWLockAcquire LW_SHARED s) (\<lambda>_ s1.
       (let count = n_nodes (PgHaCtl s1) in
        and_then (LWLockRelease s1) (\<lambda>_ s2. Return count s2)))"

text \<open>The SQL-callable wrappers.\<close>

definition add_node :: "string \<Rightarrow> string \<Rightarrow> 'a backend_scheme \<Rightarrow> (bool, 'a backend_scheme) result" where
  "add_node nm ci s = addNode nm ci False False s"

definition del_node :: "string \<Rightarrow> 'a backend_scheme \<Rightarrow> (bool, 'a backend_scheme) result" where
  "del_node nm s = delNode nm s"

section \<open>Probing a node (execSQL)\<close>

text \<open>
  The part of libpq that \<open>execSQL\<close> uses, as the network answers during one sweep:
  \<open>PQconnectdb\<close> gives a connection or NULL (\<open>None\<close>), and \<open>PQexec_status\<close> is
  \<open>PQresultStatus(PQexec(con, sql))\<close>.
\<close>

datatype ExecStatusType =
    PGRES_EMPTY_QUERY | PGRES_COMMAND_OK | PGRES_TUPLES_OK | PGRES_COPY_OUT
  | PGRES_COPY_IN | PGRES_BAD_RESPONSE | PGRES_NONFATAL_ERROR | PGRES_FATAL_ERROR

record libpq =
  PQconnectdb :: "string \<Rightarrow> nat option"
  PQexec_status :: "nat \<Rightarrow> string \<Rightarrow> ExecStatusType"

definition execSQL :: "libpq \<Rightarrow> string \<Rightarrow> string \<Rightarrow> bool" where
  "execSQL net ci sql =
     (case PQconnectdb net ci of
        None \<Rightarrow> False
      | Some con \<Rightarrow>
          (let res = PQexec_status net con sql in
           if res \<noteq> PGRES_TUPLES_OK \<and> res \<noteq> PGRES_COMMAND_OK then False else True))"

section \<open>Heartbeat sweep (doHeartbeat)\<close>

text \<open>
  The body of the loop for one slot; \<open>master\<close> is \<open>am_master()\<close>. The source tests
  \<open>!node->in_use || node->myself\<close> twice.
\<close>

definition doHeartbeat_body :: "libpq \<Rightarrow> bool \<Rightarrow> PgHaNode \<Rightarrow> PgHaNode" where
  "doHeartbeat_body net master node =
     (if \<not> in_use node \<or> myself node then node
      else if \<not> master \<and> type node = CHR ''s'' then node
      else if \<not> in_use node \<or> myself node then node
      else
        (let ret = execSQL net (conninfo node) ''SELECT 1'' in
         if \<not> ret then node\<lparr>retry_count := retry_count node + 1\<rparr>
         else node\<lparr>retry_count := 0\<rparr>))"

text \<open>
  The loop visits the slots \<open>0 .. pgha_max_nodes - 1\<close> in order and each pass touches
  only its own slot: it maps the body over the array.
\<close>

definition doHeartbeat :: "libpq \<Rightarrow> 'a backend_scheme \<Rightarrow> (unit, 'a backend_scheme) result" where
  "doHeartbeat net s =
     and_then (LWLockAcquire LW_SHARED s) (\<lambda>_ s1.
       LWLockRelease
         (s1\<lparr>PgHaCtl := (PgHaCtl s1)
                \<lparr>nodes := map (doHeartbeat_body net (am_master s1)) (nodes (PgHaCtl s1))\<rparr>\<rparr>))"

section \<open>Listing and joining (join_node)\<close>

text \<open>What \<open>join_node\<close> asks of its call context \<open>fcinfo\<close>.\<close>

record fcinfo =
  rsinfo_is_null :: bool
  rsinfo_IsA_ReturnSetInfo :: bool
  allows_SFRM_Materialize :: bool
  expectedDesc_is_null :: bool
  result_is_TYPEFUNC_COMPOSITE :: bool

text \<open>
  The loop of \<open>join_node\<close> over the slots, from slot \<open>i\<close> on. For every slot in use it
  hands \<open>values\<close> (the name and the connection string) and \<open>nulls\<close> to
  \<open>tuplestore_putvalues\<close>. The array \<open>nulls\<close> is declared in the body of the loop and
  never written: what the pass for slot \<open>i\<close> finds in it is whatever the stack holds
  there, \<open>stack_nulls i\<close>. A column whose flag is set is stored as NULL (\<open>None\<close>).
\<close>

primrec join_node_loop ::
  "(nat \<Rightarrow> bool \<times> bool) \<Rightarrow> nat \<Rightarrow> PgHaNode list \<Rightarrow> (string option \<times> string option) list" where
  "join_node_loop stack_nulls i [] = []"
| "join_node_loop stack_nulls i (node # rest) =
     (if \<not> in_use node then join_node_loop stack_nulls (Suc i) rest
      else
        (if fst (stack_nulls i) then None else Some (name node),
         if snd (stack_nulls i) then None else Some (conninfo node))
        # join_node_loop stack_nulls (Suc i) rest)"

text \<open>
  \<open>join_node\<close>: the result is the content of the tuplestore, one row per slot in use,
  in slot order.
\<close>

definition join_node ::
  "string \<Rightarrow> string \<Rightarrow> fcinfo \<Rightarrow> (nat \<Rightarrow> bool \<times> bool) \<Rightarrow> 'a backend_scheme \<Rightarrow>
     ((string option \<times> string option) list, 'a backend_scheme) result" where
  "join_node nm ci fc stack_nulls s =
     (if \<not> am_master s then Error NotMaster s
      else if rsinfo_is_null fc \<or> \<not> rsinfo_IsA_ReturnSetInfo fc then Error FeatureNotSupported s
      else if \<not> allows_SFRM_Materialize fc \<or> expectedDesc_is_null fc then Error FeatureNotSupported s
      else if \<not> result_is_TYPEFUNC_COMPOSITE fc then Error NotRowType s
      else
        and_then (addNode nm ci False True s) (\<lambda>_ s1.
          and_then (LWLockAcquire LW_SHARED s1) (\<lambda>_ s2.
            (let tupstore = join_node_loop stack_nulls 0 (nodes (PgHaCtl s2))
             in and_then (LWLockRelease s2) (\<lambda>_ s3. Return tupstore s3)))))"

section \<open>The background worker\<close>

text \<open>
  The calls the worker makes, in the order it makes them: a ghost field of the model,
  so that the order of the steps of an iteration can be stated.
\<close>

datatype call =
    Test_got_sigterm
  | Call_WaitLatch
  | Call_ProcessConfigFile
  | Call_get_hanode_count
  | Call_doHeartbeat
  | Call_checkClusterStatus
  | Call_changeToAsync

text \<open>The globals of the worker process, on top of what every process sees.\<close>

record worker = backend +
  got_sighup :: bool
  got_sigterm :: bool
  in_syncrep :: bool
  EnableHotStandby :: bool
  pgha_keepalives_time :: int
  pgha_retry_count :: int
  pgha_node_name :: "string option"
  pgha_my_conninfo :: "string option"
  calls :: "call list"

definition noted :: "call \<Rightarrow> 'a worker_scheme \<Rightarrow> 'a worker_scheme" where
  "noted c s = s\<lparr>calls := calls s @ [c]\<rparr>"

text \<open>
  What the world does during one iteration: the signals delivered while the worker
  waits on its latch, whether the postmaster has died, the values the configuration
  file holds if it is reread, the network, and whether \<open>kill(PostmasterPid, SIGHUP)\<close>
  succeeds.
\<close>

record wake =
  sigterm_arrives :: bool
  sighup_arrives :: bool
  postmaster_death :: bool
  conf_keepalives_time :: int
  conf_retry_count :: int
  net :: libpq
  kill_succeeds :: bool

text \<open>\<open>checkParameter\<close>\<close>

definition checkParameter :: "'a worker_scheme \<Rightarrow> (unit, 'a worker_scheme) result" where
  "checkParameter s =
     (if \<not> EnableHotStandby s then Error InvalidConfiguration s
      else if pgha_my_conninfo s = None \<or> pgha_my_conninfo s = Some [] then Error InvalidConfiguration s
      else if pgha_node_name s = None \<or> pgha_node_name s = Some [] then Error InvalidConfiguration s
      else Return () s)"

text \<open>
  \<open>checkClusterStatus(void)\<close>: the body is \<open>return true;\<close>. It reads no global, so it
  is a constant; \<open>true\<close> means that the cluster is healthy.
\<close>

definition checkClusterStatus :: bool where
  "checkClusterStatus = True"

text \<open>\<open>changeToAsync\<close>\<close>

definition alter_system_sql :: string where
  "alter_system_sql = ''ALTER SYSTEM SET synchronous_standby_names TO '' @ [CHR 0x27, CHR 0x27]"

definition changeToAsync ::
  "libpq \<Rightarrow> bool \<Rightarrow> 'a worker_scheme \<Rightarrow> (unit, 'a worker_scheme) result" where
  "changeToAsync nw kill_ok s =
     (case pgha_my_conninfo s of
        None \<Rightarrow> Undefined NullPointer
      | Some ci \<Rightarrow>
          if \<not> execSQL nw ci alter_system_sql then Error FailoverActionFailed s
          else if \<not> kill_ok then Error FailoverActionFailed s
          else Return () s)"

text \<open>
  One pass of \<open>while (!got_sigterm) { ... }\<close> in \<open>PgHaMasterLoop\<close>: the test of the
  loop condition and then, when it holds, the body to its end. \<open>Return (Some b)\<close>:
  the function returns \<open>b\<close>; \<open>Return None\<close>: the loop goes on with the next test.
  The value that the call \<open>checkClusterStatus()\<close> returns is the parameter \<open>healthy\<close>,
  so that both branches of \<open>if (in_syncrep && !checkClusterStatus())\<close> can be stated.
\<close>

definition PgHaMasterLoop_iteration_with ::
  "bool \<Rightarrow> wake \<Rightarrow> 'a worker_scheme \<Rightarrow> (bool option, 'a worker_scheme) result" where
  "PgHaMasterLoop_iteration_with healthy w s0 =
     (let s1 = noted Test_got_sigterm s0 in
      if got_sigterm s1 then Return (Some True) s1
      else
        (let s2 = noted Call_WaitLatch s1;
             s3 = s2\<lparr>got_sighup := got_sighup s2 \<or> sighup_arrives w,
                     got_sigterm := got_sigterm s2 \<or> sigterm_arrives w\<rparr>
         in
         if postmaster_death w then Return (Some False) s3
         else
           (let s4 = (if got_sighup s3
                      then (noted Call_ProcessConfigFile s3)
                             \<lparr>got_sighup := False,
                              pgha_keepalives_time := conf_keepalives_time w,
                              pgha_retry_count := conf_retry_count w\<rparr>
                      else s3)
            in
            and_then (get_hanode_count (noted Call_get_hanode_count s4)) (\<lambda>count s5.
              if count > 1 then
                and_then (doHeartbeat (net w) (noted Call_doHeartbeat s5)) (\<lambda>_ s6.
                  if in_syncrep s6 then
                    (let s7 = noted Call_checkClusterStatus s6 in
                     if \<not> healthy
                     then and_then (changeToAsync (net w) (kill_succeeds w) (noted Call_changeToAsync s7))
                            (\<lambda>_ s8. Return None s8)
                     else Return None s7)
                  else Return None s6)
              else Return None s5))))"

text \<open>The pass as the code runs it: the evaluator is \<open>checkClusterStatus\<close>.\<close>

definition PgHaMasterLoop_iteration ::
  "wake \<Rightarrow> 'a worker_scheme \<Rightarrow> (bool option, 'a worker_scheme) result" where
  "PgHaMasterLoop_iteration w s = PgHaMasterLoop_iteration_with checkClusterStatus w s"

text \<open>
  The loop, driven by what the world does in each iteration; \<open>None\<close> when the list
  is used up and the loop is still running (it would wait on the latch next).
\<close>

primrec PgHaMasterLoop ::
  "wake list \<Rightarrow> 'a worker_scheme \<Rightarrow> (bool, 'a worker_scheme) result option" where
  "PgHaMasterLoop [] s =
     (if got_sigterm s then Some (Return True (noted Test_got_sigterm s)) else None)"
| "PgHaMasterLoop (w # ws) s =
     (case PgHaMasterLoop_iteration w s of
        Return None s' \<Rightarrow> PgHaMasterLoop ws s'
      | Return (Some b) s' \<Rightarrow> Some (Return b s')
      | Error e s' \<Rightarrow> Some (Error e s')
      | Undefined u \<Rightarrow> Some (Undefined u)
      | SelfDeadlock \<Rightarrow> Some SelfDeadlock)"

definition PgHaStandbyLoop :: "'a worker_scheme \<Rightarrow> (bool, 'a worker_scheme) result" where
  "PgHaStandbyLoop s = Return True s"

text \<open>
  \<open>PgHaMain\<close>, up to \<open>proc_exit(ret)\<close>: the parameters are checked, the worker
  registers itself and then runs the loop of its role.
\<close>

definition PgHaMain ::
  "wake list \<Rightarrow> 'a worker_scheme \<Rightarrow> (bool, 'a worker_scheme) result option" where
  "PgHaMain ws s =
     (case checkParameter s of
        Error e s' \<Rightarrow> Some (Error e s')
      | Undefined u \<Rightarrow> Some (Undefined u)
      | SelfDeadlock \<Rightarrow> Some SelfDeadlock
      | Return _ s1 \<Rightarrow>
          (case (pgha_node_name s1, pgha_my_conninfo s1) of
             (Some nm, Some ci) \<Rightarrow>
               (case addNode nm ci True False s1 of
                  Error e s' \<Rightarrow> Some (Error e s')
                | Undefined u \<Rightarrow> Some (Undefined u)
                | SelfDeadlock \<Rightarrow> Some SelfDeadlock
                | Return _ s2 \<Rightarrow>
                    if am_master s2 then PgHaMasterLoop ws s2
                    else Some (PgHaStandbyLoop s2))
           | _ \<Rightarrow> Some (Undefined NullPointer)))"

section \<open>Example states\<close>

text \<open>
  A primary that has registered itself, a registry with two standby peers, and a
  network on which only \<open>host=down\<close> cannot be reached.
\<close>

definition node_a :: PgHaNode where
  "node_a =
     \<lparr>name = ''a'', conninfo = ''host=a'', type = CHR ''m'', in_use = True, myself = True,
      live = False, is_sync = False, retry_count = 0\<rparr>"

definition peer_up :: PgHaNode where
  "peer_up =
     \<lparr>name = ''up'', conninfo = ''host=up'', type = CHR ''s'', in_use = True, myself = False,
      live = False, is_sync = False, retry_count = 3\<rparr>"

definition peer_down :: PgHaNode where
  "peer_down =
     \<lparr>name = ''down'', conninfo = ''host=down'', type = CHR ''s'', in_use = True, myself = False,
      live = False, is_sync = False, retry_count = 2\<rparr>"

definition example_net :: libpq where
  "example_net =
     \<lparr>PQconnectdb = (\<lambda>ci. if ci = ''host=down'' then None else Some 1),
      PQexec_status = (\<lambda>con sql. PGRES_TUPLES_OK)\<rparr>"

definition one_node_backend :: backend where
  "one_node_backend =
     \<lparr>PgHaCtl = \<lparr>n_nodes = 1, nodes = [node_a, zero_node]\<rparr>,
      held_lwlocks = [], InRecovery = False\<rparr>"

definition cluster_backend :: backend where
  "cluster_backend =
     \<lparr>PgHaCtl = \<lparr>n_nodes = 3, nodes = [node_a, peer_up, peer_down, zero_node]\<rparr>,
      held_lwlocks = [], InRecovery = False\<rparr>"

definition peer_failing :: PgHaNode where
  "peer_failing =
     \<lparr>name = ''down'', conninfo = ''host=down'', type = CHR ''s'', in_use = True, myself = False,
      live = False, is_sync = True, retry_count = 5\<rparr>"

text \<open>A registry of \<open>max_nodes\<close> zeroed slots, fresh from \<open>pgha_shmem_startup\<close>, on a primary.\<close>

definition empty_backend :: "nat \<Rightarrow> backend" where
  "empty_backend max_nodes =
     \<lparr>PgHaCtl = pgha_shmem_startup (replicate max_nodes zero_node),
      held_lwlocks = [], InRecovery = False\<rparr>"

text \<open>A stack that holds a set flag only where the second column of slot 1 is read.\<close>

definition example_stack :: "nat \<Rightarrow> bool \<times> bool" where
  "example_stack i = (False, i = 1)"

definition ok_fcinfo :: fcinfo where
  "ok_fcinfo =
     \<lparr>rsinfo_is_null = False, rsinfo_IsA_ReturnSetInfo = True, allows_SFRM_Materialize = True,
      expectedDesc_is_null = False, result_is_TYPEFUNC_COMPOSITE = True\<rparr>"

text \<open>
  The worker of a primary in synchronous replication over \<open>cluster_backend\<close>, the
  worker of a standby that has not registered yet, and an iteration in which a
  SIGHUP arrives.
\<close>

definition cluster_worker :: worker where
  "cluster_worker =
     \<lparr>PgHaCtl = \<lparr>n_nodes = 3, nodes = [node_a, peer_up, peer_down, zero_node]\<rparr>,
      held_lwlocks = [], InRecovery = False,
      got_sighup = False, got_sigterm = False, in_syncrep = True, EnableHotStandby = True,
      pgha_keepalives_time = 5, pgha_retry_count = 4,
      pgha_node_name = Some ''a'', pgha_my_conninfo = Some ''host=a'', calls = []\<rparr>"

definition standby_worker :: worker where
  "standby_worker =
     \<lparr>PgHaCtl = pgha_shmem_startup [zero_node, zero_node],
      held_lwlocks = [], InRecovery = True,
      got_sighup = False, got_sigterm = False, in_syncrep = False, EnableHotStandby = True,
      pgha_keepalives_time = 5, pgha_retry_count = 4,
      pgha_node_name = Some ''b'', pgha_my_conninfo = Some ''host=b'', calls = []\<rparr>"

definition reload_wake :: wake where
  "reload_wake =
     \<lparr>sigterm_arrives = False, sighup_arrives = True, postmaster_death = False,
      conf_keepalives_time = 7, conf_retry_count = 4, net = example_net, kill_succeeds = True\<rparr>"

section \<open>The statements of the specification\<close>

text \<open>
  The health policy in the words of the specification: the cluster is degraded when
  the failure counter of some tracked peer exceeds the retry threshold.
\<close>

definition spec_degraded :: "int \<Rightarrow> PgHaNode list \<Rightarrow> bool" where
  "spec_degraded threshold ns =
     list_ex (\<lambda>node. in_use node \<and> \<not> myself node \<and> threshold < sint (retry_count node)) ns"

text \<open>
  The order of the steps of one iteration in the words of the specification: the
  test for a pending shutdown, the reload, the count and the sweep, the evaluation,
  the switch to asynchronous replication. The wait on the latch stands between the
  test and the reload.
\<close>

primrec claimed_order :: "call \<Rightarrow> nat" where
  "claimed_order Test_got_sigterm = 0"
| "claimed_order Call_WaitLatch = 1"
| "claimed_order Call_ProcessConfigFile = 2"
| "claimed_order Call_get_hanode_count = 3"
| "claimed_order Call_doHeartbeat = 4"
| "claimed_order Call_checkClusterStatus = 5"
| "claimed_order Call_changeToAsync = 6"

text \<open>
  The steps the specification lets one iteration take from the state \<open>s\<close>, when the
  evaluation would answer \<open>healthy\<close>: the sweep only when more than one node is
  registered, the evaluation only after a sweep and only when \<open>in_syncrep\<close> is set,
  the switch only when the evaluation does not report a healthy cluster.
\<close>

definition claimed_steps :: "bool \<Rightarrow> wake \<Rightarrow> 'a worker_scheme \<Rightarrow> call list" where
  "claimed_steps healthy w s =
     Test_got_sigterm #
     (if got_sigterm s then []
      else Call_WaitLatch #
        (if postmaster_death w then []
         else (if got_sighup s \<or> sighup_arrives w then [Call_ProcessConfigFile] else []) @
              Call_get_hanode_count #
              (if 1 < n_nodes (PgHaCtl s)
               then Call_doHeartbeat #
                 (if in_syncrep s
                  then Call_checkClusterStatus #
                    (if \<not> healthy then [Call_changeToAsync] else [])
                  else [])
               else [])))"

section \<open>Facts about the loops and the lock\<close>

lemma addNode_loop_None:
  "addNode_loop ns nm dup_ok = None \<longleftrightarrow> \<not> (\<exists>node \<in> set ns. in_use node \<and> name node = nm)"
  by (induction ns) auto

lemma addNode_loop_found:
  "\<exists>node \<in> set ns. in_use node \<and> name node = nm \<Longrightarrow>
   addNode_loop ns nm dup_ok = Some (if \<not> dup_ok then Inl DuplicateNode else Inr True)"
proof (induction ns)
  case Nil
  then show ?case by simp
next
  case (Cons node rest)
  show ?case
  proof (cases "in_use node \<and> name node = nm")
    case True
    then show ?thesis by simp
  next
    case False
    with Cons.prems have "\<exists>x \<in> set rest. in_use x \<and> name x = nm" by auto
    with Cons.IH False show ?thesis by simp
  qed
qed

lemma delNode_loop_None:
  "delNode_loop ns nm = None \<longleftrightarrow> \<not> (\<exists>node \<in> set ns. in_use node \<and> name node = nm)"
  by (induction ns) auto

lemma LWLockAcquire_free:
  "held_lwlocks s = [] \<Longrightarrow> LWLockAcquire mode s = Return () (s\<lparr>held_lwlocks := [mode]\<rparr>)"
  by (simp add: LWLockAcquire_def)

lemma debug_show_result: "held_lwlocks s = [] \<Longrightarrow> debug_show s = Return () s"
  by (simp add: debug_show_def LWLockAcquire_free and_then_def LWLockRelease_def)

lemma get_hanode_count_result:
  "held_lwlocks s = [] \<Longrightarrow> get_hanode_count s = Return (n_nodes (PgHaCtl s)) s"
  by (simp add: get_hanode_count_def LWLockAcquire_free and_then_def LWLockRelease_def)

lemma doHeartbeat_result:
  assumes "held_lwlocks s = []"
  shows "doHeartbeat nw s =
           Return () (s\<lparr>PgHaCtl := (PgHaCtl s)
                \<lparr>nodes := map (doHeartbeat_body nw (am_master s)) (nodes (PgHaCtl s))\<rparr>\<rparr>)"
  using assms
  by (simp add: doHeartbeat_def LWLockAcquire_free and_then_def LWLockRelease_def am_master_def)

lemma example_probes:
  "execSQL example_net ''host=up'' ''SELECT 1''"
  "\<not> execSQL example_net ''host=down'' ''SELECT 1''"
  by (simp_all add: execSQL_def example_net_def)

section \<open>Heartbeat sweep\<close>

text \<open>
  Claim C3. One sweep by a process that does not hold the registry lock returns, and
  leaves every slot as it was except for the failure counter of the probed ones: a
  slot is probed when it is in use, is not the process's own record and is not a
  standby record seen from a standby; the counter of a probed slot becomes 0 when
  the probe succeeds and is incremented by 1 (as a C \<open>int\<close>) when it fails. Each slot
  is decided by its own probe alone, so a failed probe of one node does not stop the
  sweep or touch another node's counter.
\<close>

theorem doHeartbeat_counters:
  assumes "held_lwlocks s = []"
  shows "\<exists>s'. doHeartbeat nw s = Return () s'
           \<and> n_nodes (PgHaCtl s') = n_nodes (PgHaCtl s)
           \<and> length (nodes (PgHaCtl s')) = length (nodes (PgHaCtl s))
           \<and> (\<forall>i < length (nodes (PgHaCtl s)).
                 nodes (PgHaCtl s') ! i =
                   (let node = nodes (PgHaCtl s) ! i in
                    if in_use node \<and> \<not> myself node \<and> \<not> (InRecovery s \<and> type node = CHR ''s'')
                    then (if execSQL nw (conninfo node) ''SELECT 1''
                          then node\<lparr>retry_count := 0\<rparr>
                          else node\<lparr>retry_count := retry_count node + 1\<rparr>)
                    else node))"
proof -
  let ?s' = "s\<lparr>PgHaCtl := (PgHaCtl s)
                \<lparr>nodes := map (doHeartbeat_body nw (am_master s)) (nodes (PgHaCtl s))\<rparr>\<rparr>"
  have body: "doHeartbeat_body nw (am_master s) node =
       (if in_use node \<and> \<not> myself node \<and> \<not> (InRecovery s \<and> type node = CHR ''s'')
        then (if execSQL nw (conninfo node) ''SELECT 1''
              then node\<lparr>retry_count := 0\<rparr>
              else node\<lparr>retry_count := retry_count node + 1\<rparr>)
        else node)" for node
    by (simp add: doHeartbeat_body_def am_master_def)
  have "doHeartbeat nw s = Return () ?s'"
    by (rule doHeartbeat_result [OF assms])
  moreover have "\<forall>i < length (nodes (PgHaCtl s)).
       nodes (PgHaCtl ?s') ! i =
         (let node = nodes (PgHaCtl s) ! i in
          if in_use node \<and> \<not> myself node \<and> \<not> (InRecovery s \<and> type node = CHR ''s'')
          then (if execSQL nw (conninfo node) ''SELECT 1''
                then node\<lparr>retry_count := 0\<rparr>
                else node\<lparr>retry_count := retry_count node + 1\<rparr>)
          else node)"
    by (simp add: body Let_def)
  ultimately show ?thesis by simp
qed

text \<open>
  The sweep of a primary over its own record, a reachable peer whose counter is 3,
  an unreachable peer whose counter is 2 and a free slot: the reachable peer ends at
  0, the unreachable one at 3, and nothing else changes.
\<close>

theorem doHeartbeat_counters_witness:
  "\<exists>s'. doHeartbeat example_net cluster_backend = Return () s'
     \<and> nodes (PgHaCtl s') ! 0 = node_a
     \<and> nodes (PgHaCtl s') ! 1 = peer_up\<lparr>retry_count := 0\<rparr>
     \<and> nodes (PgHaCtl s') ! 2 = peer_down\<lparr>retry_count := 3\<rparr>
     \<and> nodes (PgHaCtl s') ! 3 = zero_node"
proof -
  have free: "held_lwlocks cluster_backend = []"
    by (simp add: cluster_backend_def)
  from doHeartbeat_counters [OF free, of example_net]
  obtain s' where ret: "doHeartbeat example_net cluster_backend = Return () s'"
    and each: "\<forall>i < length (nodes (PgHaCtl cluster_backend)).
                 nodes (PgHaCtl s') ! i =
                   (let node = nodes (PgHaCtl cluster_backend) ! i in
                    if in_use node \<and> \<not> myself node
                         \<and> \<not> (InRecovery cluster_backend \<and> type node = CHR ''s'')
                    then (if execSQL example_net (conninfo node) ''SELECT 1''
                          then node\<lparr>retry_count := 0\<rparr>
                          else node\<lparr>retry_count := retry_count node + 1\<rparr>)
                    else node)"
    by blast
  have ns: "nodes (PgHaCtl cluster_backend) = [node_a, peer_up, peer_down, zero_node]"
    by (simp add: cluster_backend_def)
  have "nodes (PgHaCtl s') ! 0 = node_a"
    using each [rule_format, of 0] by (simp add: ns node_a_def)
  moreover have "nodes (PgHaCtl s') ! 1 = peer_up\<lparr>retry_count := 0\<rparr>"
    using each [rule_format, of 1] example_probes
    by (simp add: ns peer_up_def cluster_backend_def)
  moreover have "nodes (PgHaCtl s') ! 2 = peer_down\<lparr>retry_count := 3\<rparr>"
    using each [rule_format, of 2] example_probes
    by (simp add: ns peer_down_def cluster_backend_def)
  moreover have "nodes (PgHaCtl s') ! 3 = zero_node"
    using each [rule_format, of 3] by (simp add: ns zero_node_def)
  ultimately show ?thesis using ret by blast
qed

section \<open>Rejected and tolerated duplicates, removal of an absent name\<close>

lemma one_node_backend_free: "held_lwlocks one_node_backend = []"
  by (simp add: one_node_backend_def)

lemma one_node_backend_has_a:
  "\<exists>node \<in> set (nodes (PgHaCtl one_node_backend)). in_use node \<and> name node = ''a''"
  by (simp add: one_node_backend_def node_a_def)

lemma one_node_backend_lacks_b:
  "\<not> (\<exists>node \<in> set (nodes (PgHaCtl one_node_backend)). in_use node \<and> name node = ''b'')"
  by (simp add: one_node_backend_def node_a_def zero_node_def)

text \<open>
  Claim C4. When a slot is in use under the given name and duplicates are not
  tolerated, \<open>addNode\<close> called by a process that does not hold the registry lock
  ends in the report of a duplicate node, and the registry at that point is the
  registry before the call: no slot and no counter has changed. The state differs
  from the one before the call only in the lock, which the report leaves to
  PostgreSQL's error recovery.
\<close>

theorem addNode_duplicate_rejected:
  assumes "held_lwlocks s = []"
    and "\<exists>node \<in> set (nodes (PgHaCtl s)). in_use node \<and> name node = nm"
  shows "case addNode nm ci self False s of
           Error e s' \<Rightarrow> e = DuplicateNode \<and> PgHaCtl s' = PgHaCtl s
              \<and> s' = s\<lparr>held_lwlocks := [LW_EXCLUSIVE]\<rparr>
         | _ \<Rightarrow> False"
  using assms
  by (simp add: addNode_def LWLockAcquire_free and_then_def addNode_loop_found)

theorem addNode_duplicate_rejected_witness:
  "case addNode ''a'' ''host=b'' False False one_node_backend of
     Error e s' \<Rightarrow> e = DuplicateNode \<and> PgHaCtl s' = PgHaCtl one_node_backend
        \<and> s' = one_node_backend\<lparr>held_lwlocks := [LW_EXCLUSIVE]\<rparr>
   | _ \<Rightarrow> False"
  by (rule addNode_duplicate_rejected [OF one_node_backend_free one_node_backend_has_a])

text \<open>
  Claim C5. When a slot is in use under the given name and duplicates are
  tolerated, \<open>addNode\<close> called by a process that does not hold the registry lock
  returns true, and the registry after the call is the registry before it. The
  state differs from the one before the call only in the lock (claim C9).
\<close>

theorem addNode_duplicate_tolerated:
  assumes "held_lwlocks s = []"
    and "\<exists>node \<in> set (nodes (PgHaCtl s)). in_use node \<and> name node = nm"
  shows "case addNode nm ci self True s of
           Return b s' \<Rightarrow> b \<and> PgHaCtl s' = PgHaCtl s
              \<and> s' = s\<lparr>held_lwlocks := [LW_EXCLUSIVE]\<rparr>
         | _ \<Rightarrow> False"
  using assms
  by (simp add: addNode_def LWLockAcquire_free and_then_def addNode_loop_found)

theorem addNode_duplicate_tolerated_witness:
  "case addNode ''a'' ''host=b'' False True one_node_backend of
     Return b s' \<Rightarrow> b \<and> PgHaCtl s' = PgHaCtl one_node_backend
        \<and> s' = one_node_backend\<lparr>held_lwlocks := [LW_EXCLUSIVE]\<rparr>
   | _ \<Rightarrow> False"
  by (rule addNode_duplicate_tolerated [OF one_node_backend_free one_node_backend_has_a])

text \<open>
  Claim C6. When no slot is in use under the given name, \<open>delNode\<close> called by a
  process that does not hold the registry lock ends in the report that the node was
  not found, and the registry at that point is the registry before the call; in
  particular \<open>n_nodes\<close> is the same. The state differs from the one before the call
  only in the lock, which the report leaves to PostgreSQL's error recovery.
\<close>

theorem delNode_absent:
  assumes "held_lwlocks s = []"
    and "\<not> (\<exists>node \<in> set (nodes (PgHaCtl s)). in_use node \<and> name node = nm)"
  shows "case delNode nm s of
           Error e s' \<Rightarrow> e = NodeNotFound \<and> PgHaCtl s' = PgHaCtl s
              \<and> n_nodes (PgHaCtl s') = n_nodes (PgHaCtl s)
              \<and> s' = s\<lparr>held_lwlocks := [LW_EXCLUSIVE]\<rparr>
         | _ \<Rightarrow> False"
proof -
  have "delNode_loop (nodes (PgHaCtl s)) nm = None"
    using assms(2) by (simp add: delNode_loop_None)
  then show ?thesis
    using assms(1) by (simp add: delNode_def LWLockAcquire_free and_then_def)
qed

theorem delNode_absent_witness:
  "case delNode ''b'' one_node_backend of
     Error e s' \<Rightarrow> e = NodeNotFound \<and> PgHaCtl s' = PgHaCtl one_node_backend
        \<and> n_nodes (PgHaCtl s') = n_nodes (PgHaCtl one_node_backend)
        \<and> s' = one_node_backend\<lparr>held_lwlocks := [LW_EXCLUSIVE]\<rparr>
   | _ \<Rightarrow> False"
  by (rule delNode_absent [OF one_node_backend_free one_node_backend_lacks_b])

section \<open>Joining on a standby\<close>

lemma addNode_fresh:
  assumes "held_lwlocks s = []"
    and "\<not> (\<exists>node \<in> set (nodes (PgHaCtl s)). in_use node \<and> name node = nm)"
    and "0 \<le> n_nodes (PgHaCtl s)" and "n_nodes (PgHaCtl s) < int (length (nodes (PgHaCtl s)))"
    and "length nm < NAMEDATALEN" and "length ci < MAXPGPATH"
  shows "addNode nm ci self dup_ok s =
           Return True
             (s\<lparr>PgHaCtl :=
                  \<lparr>n_nodes = n_nodes (PgHaCtl s) + 1,
                   nodes = (nodes (PgHaCtl s))
                     [nat (n_nodes (PgHaCtl s)) :=
                        (nodes (PgHaCtl s) ! nat (n_nodes (PgHaCtl s)))
                          \<lparr>name := nm, conninfo := ci,
                           type := (if InRecovery s then CHR ''s'' else CHR ''m''),
                           in_use := True, myself := self, is_sync := False,
                           retry_count := 0\<rparr>]\<rparr>\<rparr>)"
proof -
  have loop: "addNode_loop (nodes (PgHaCtl s)) nm dup_ok = None"
    using assms(2) by (simp add: addNode_loop_None)
  show ?thesis
    using assms(1,3-6) loop
    by (simp add: addNode_def LWLockAcquire_free and_then_def LWLockRelease_def Let_def
          debug_show_result am_master_def)
qed

lemma join_node_loop_rows:
  "list_all2
     (\<lambda>row node. (fst row = None \<or> fst row = Some (name node))
                 \<and> (snd row = None \<or> snd row = Some (conninfo node)))
     (join_node_loop stack_nulls i ns) (filter in_use ns)"
  by (induction ns arbitrary: i) simp_all

lemma join_node_loop_clean_stack:
  "\<forall>k. stack_nulls k = (False, False) \<Longrightarrow>
     join_node_loop stack_nulls i ns =
       map (\<lambda>node. (Some (name node), Some (conninfo node))) (filter in_use ns)"
  by (induction ns arbitrary: i) simp_all

text \<open>
  Claim C10. On a process in recovery \<open>join_node\<close> ends in the report that it can be
  executed only on the master, with the state it was called in: nothing has been
  registered. It returns rows only on a master. On a master whose call context
  accepts a materialized set, that does not hold the registry lock and whose
  registry has room and no slot in use under the name, it writes the node into slot
  \<open>n_nodes\<close>, changes nothing else, and returns one row per slot in use, in slot
  order. Each column of a row is the slot's name or connection string, or NULL
  where the never-initialised \<open>nulls\<close> array happens to hold a set flag; when the
  stack holds no set flag the rows are the names and connection strings of all
  members.
\<close>

theorem join_node_master_only:
  "(InRecovery s \<longrightarrow> join_node nm ci fc stack_nulls s = Error NotMaster s)
   \<and> (\<forall>rows s'. join_node nm ci fc stack_nulls s = Return rows s' \<longrightarrow> \<not> InRecovery s)
   \<and> (\<not> InRecovery s
        \<and> \<not> rsinfo_is_null fc \<and> rsinfo_IsA_ReturnSetInfo fc
        \<and> allows_SFRM_Materialize fc \<and> \<not> expectedDesc_is_null fc
        \<and> result_is_TYPEFUNC_COMPOSITE fc
        \<and> held_lwlocks s = []
        \<and> \<not> (\<exists>node \<in> set (nodes (PgHaCtl s)). in_use node \<and> name node = nm)
        \<and> 0 \<le> n_nodes (PgHaCtl s) \<and> n_nodes (PgHaCtl s) < int (length (nodes (PgHaCtl s)))
        \<and> length nm < NAMEDATALEN \<and> length ci < MAXPGPATH
       \<longrightarrow>
        (let n = n_nodes (PgHaCtl s);
             new = (nodes (PgHaCtl s) ! nat n)
                     \<lparr>name := nm, conninfo := ci, type := CHR ''m'', in_use := True,
                      myself := False, is_sync := False, retry_count := 0\<rparr>;
             members = (nodes (PgHaCtl s))[nat n := new];
             rows = join_node_loop stack_nulls 0 members
         in join_node nm ci fc stack_nulls s =
              Return rows (s\<lparr>PgHaCtl := \<lparr>n_nodes = n + 1, nodes = members\<rparr>\<rparr>)
            \<and> list_all2
                 (\<lambda>row node. (fst row = None \<or> fst row = Some (name node))
                             \<and> (snd row = None \<or> snd row = Some (conninfo node)))
                 rows (filter in_use members)
            \<and> ((\<forall>k. stack_nulls k = (False, False)) \<longrightarrow>
                  rows = map (\<lambda>node. (Some (name node), Some (conninfo node)))
                             (filter in_use members))))"
proof (intro conjI impI allI)
  assume "InRecovery s"
  then show "join_node nm ci fc stack_nulls s = Error NotMaster s"
    by (simp add: join_node_def am_master_def)
next
  fix rows s'
  assume "join_node nm ci fc stack_nulls s = Return rows s'"
  then show "\<not> InRecovery s"
    by (auto simp add: join_node_def am_master_def split: if_splits)
next
  assume a: "\<not> InRecovery s
        \<and> \<not> rsinfo_is_null fc \<and> rsinfo_IsA_ReturnSetInfo fc
        \<and> allows_SFRM_Materialize fc \<and> \<not> expectedDesc_is_null fc
        \<and> result_is_TYPEFUNC_COMPOSITE fc
        \<and> held_lwlocks s = []
        \<and> \<not> (\<exists>node \<in> set (nodes (PgHaCtl s)). in_use node \<and> name node = nm)
        \<and> 0 \<le> n_nodes (PgHaCtl s) \<and> n_nodes (PgHaCtl s) < int (length (nodes (PgHaCtl s)))
        \<and> length nm < NAMEDATALEN \<and> length ci < MAXPGPATH"
  define new where "new = (nodes (PgHaCtl s) ! nat (n_nodes (PgHaCtl s)))
                     \<lparr>name := nm, conninfo := ci, type := CHR ''m'', in_use := True,
                      myself := False, is_sync := False, retry_count := 0\<rparr>"
  define members where "members = (nodes (PgHaCtl s))[nat (n_nodes (PgHaCtl s)) := new]"
  from a have add: "addNode nm ci False True s =
           Return True (s\<lparr>PgHaCtl := \<lparr>n_nodes = n_nodes (PgHaCtl s) + 1, nodes = members\<rparr>\<rparr>)"
    unfolding members_def new_def
    using addNode_fresh [of s nm ci False True] by simp
  from a have run: "join_node nm ci fc stack_nulls s =
      Return (join_node_loop stack_nulls 0 members)
        (s\<lparr>PgHaCtl := \<lparr>n_nodes = n_nodes (PgHaCtl s) + 1, nodes = members\<rparr>\<rparr>)"
    by (simp add: join_node_def am_master_def add and_then_def LWLockAcquire_free
          LWLockRelease_def Let_def)
  have rows: "list_all2
       (\<lambda>row node. (fst row = None \<or> fst row = Some (name node))
                   \<and> (snd row = None \<or> snd row = Some (conninfo node)))
       (join_node_loop stack_nulls 0 members) (filter in_use members)"
    by (rule join_node_loop_rows)
  have clean: "(\<forall>k. stack_nulls k = (False, False)) \<longrightarrow>
       join_node_loop stack_nulls 0 members =
         map (\<lambda>node. (Some (name node), Some (conninfo node))) (filter in_use members)"
    using join_node_loop_clean_stack [of stack_nulls 0 members] by blast
  from run rows clean
  show "let n = n_nodes (PgHaCtl s);
             new = (nodes (PgHaCtl s) ! nat n)
                     \<lparr>name := nm, conninfo := ci, type := CHR ''m'', in_use := True,
                      myself := False, is_sync := False, retry_count := 0\<rparr>;
             members = (nodes (PgHaCtl s))[nat n := new];
             rows = join_node_loop stack_nulls 0 members
         in join_node nm ci fc stack_nulls s =
              Return rows (s\<lparr>PgHaCtl := \<lparr>n_nodes = n + 1, nodes = members\<rparr>\<rparr>)
            \<and> list_all2
                 (\<lambda>row node. (fst row = None \<or> fst row = Some (name node))
                             \<and> (snd row = None \<or> snd row = Some (conninfo node)))
                 rows (filter in_use members)
            \<and> ((\<forall>k. stack_nulls k = (False, False)) \<longrightarrow>
                  rows = map (\<lambda>node. (Some (name node), Some (conninfo node)))
                             (filter in_use members))"
    unfolding Let_def members_def new_def by blast
qed

text \<open>
  On a standby the call is refused and the state is the one it was called in. On
  the primary that holds only \<open>a\<close>, joining \<open>b\<close> writes \<open>b\<close> into slot 1 and returns a
  row for each of the two; with a flag set in the stack for the second column of
  slot 1, the connection string of \<open>b\<close> comes back as NULL.
\<close>

theorem join_node_master_only_witness:
  "join_node ''b'' ''host=b'' ok_fcinfo example_stack (one_node_backend\<lparr>InRecovery := True\<rparr>)
     = Error NotMaster (one_node_backend\<lparr>InRecovery := True\<rparr>)
   \<and> join_node ''b'' ''host=b'' ok_fcinfo example_stack one_node_backend
       = Return [(Some ''a'', Some ''host=a''), (Some ''b'', None)]
           (one_node_backend
              \<lparr>PgHaCtl := \<lparr>n_nodes = 2,
                           nodes = [node_a, zero_node
                                      \<lparr>name := ''b'', conninfo := ''host=b'', type := CHR ''m'',
                                       in_use := True\<rparr>]\<rparr>\<rparr>)"
proof -
  have standby: "InRecovery (one_node_backend\<lparr>InRecovery := True\<rparr>)"
    by simp
  from join_node_master_only
         [of "one_node_backend\<lparr>InRecovery := True\<rparr>" "''b''" "''host=b''" ok_fcinfo example_stack]
       standby
  have refused: "join_node ''b'' ''host=b'' ok_fcinfo example_stack
                   (one_node_backend\<lparr>InRecovery := True\<rparr>)
     = Error NotMaster (one_node_backend\<lparr>InRecovery := True\<rparr>)"
    by blast
  have pre: "\<not> InRecovery one_node_backend
        \<and> \<not> rsinfo_is_null ok_fcinfo \<and> rsinfo_IsA_ReturnSetInfo ok_fcinfo
        \<and> allows_SFRM_Materialize ok_fcinfo \<and> \<not> expectedDesc_is_null ok_fcinfo
        \<and> result_is_TYPEFUNC_COMPOSITE ok_fcinfo
        \<and> held_lwlocks one_node_backend = []
        \<and> \<not> (\<exists>node \<in> set (nodes (PgHaCtl one_node_backend)). in_use node \<and> name node = ''b'')
        \<and> 0 \<le> n_nodes (PgHaCtl one_node_backend)
        \<and> n_nodes (PgHaCtl one_node_backend) < int (length (nodes (PgHaCtl one_node_backend)))
        \<and> length ''b'' < NAMEDATALEN \<and> length ''host=b'' < MAXPGPATH"
    by (simp add: one_node_backend_def ok_fcinfo_def node_a_def zero_node_def
          NAMEDATALEN_def MAXPGPATH_def)
  from join_node_master_only
         [of one_node_backend "''b''" "''host=b''" ok_fcinfo example_stack] pre
  have "let n = n_nodes (PgHaCtl one_node_backend);
            new = (nodes (PgHaCtl one_node_backend) ! nat n)
                     \<lparr>name := ''b'', conninfo := ''host=b'', type := CHR ''m'', in_use := True,
                      myself := False, is_sync := False, retry_count := 0\<rparr>;
            members = (nodes (PgHaCtl one_node_backend))[nat n := new];
            rows = join_node_loop example_stack 0 members
        in join_node ''b'' ''host=b'' ok_fcinfo example_stack one_node_backend =
              Return rows (one_node_backend\<lparr>PgHaCtl := \<lparr>n_nodes = n + 1, nodes = members\<rparr>\<rparr>)"
    unfolding Let_def by blast
  then have joined: "join_node ''b'' ''host=b'' ok_fcinfo example_stack one_node_backend
       = Return [(Some ''a'', Some ''host=a''), (Some ''b'', None)]
           (one_node_backend
              \<lparr>PgHaCtl := \<lparr>n_nodes = 2,
                           nodes = [node_a, zero_node
                                      \<lparr>name := ''b'', conninfo := ''host=b'', type := CHR ''m'',
                                       in_use := True\<rparr>]\<rparr>\<rparr>)"
    by (simp add: one_node_backend_def node_a_def zero_node_def example_stack_def)
  from refused joined show ?thesis by blast
qed

section \<open>The order of the steps of an iteration\<close>

lemma claimed_steps_in_order:
  "sorted_wrt (<) (map claimed_order (claimed_steps healthy w s))"
  by (simp add: claimed_steps_def)

lemma addNode_frame:
  "addNode nm ci self dup_ok s = Return b s' \<or> addNode nm ci self dup_ok s = Error e s'
     \<Longrightarrow> calls s' = calls s \<and> InRecovery s' = InRecovery s"
  by (auto simp add: addNode_def and_then_def LWLockAcquire_def LWLockRelease_def
        debug_show_def Let_def
        split: if_splits list.splits option.splits sum.splits)

lemma PgHaMain_standby:
  assumes "InRecovery s"
  shows "case PgHaMain ws s of
           Some (Return b s') \<Rightarrow> b \<and> calls s' = calls s
         | Some (Error e s') \<Rightarrow> calls s' = calls s
         | Some _ \<Rightarrow> True
         | None \<Rightarrow> False"
proof (cases "checkParameter s")
  case (Return u s1)
  then have s1: "s1 = s"
    by (auto simp add: checkParameter_def split: if_splits)
  from Return obtain nm ci where p: "pgha_node_name s = Some nm" "pgha_my_conninfo s = Some ci"
    by (auto simp add: checkParameter_def split: if_splits)
  show ?thesis
  proof (cases "addNode nm ci True False s")
    case (Return b s2)
    with addNode_frame [of nm ci True False s b s2] assms
    have "calls s2 = calls s" "InRecovery s2" by simp_all
    with Return \<open>checkParameter s = Return u s1\<close> s1 p show ?thesis
      by (simp add: PgHaMain_def am_master_def PgHaStandbyLoop_def)
  next
    case (Error e s2)
    with addNode_frame [of nm ci True False s _ s2 e]
    have "calls s2 = calls s" by simp
    with Error \<open>checkParameter s = Return u s1\<close> s1 p show ?thesis
      by (simp add: PgHaMain_def)
  next
    case (Undefined x)
    with \<open>checkParameter s = Return u s1\<close> s1 p show ?thesis
      by (simp add: PgHaMain_def)
  next
    case SelfDeadlock
    with \<open>checkParameter s = Return u s1\<close> s1 p show ?thesis
      by (simp add: PgHaMain_def)
  qed
next
  case (Error e s1)
  then have "s1 = s"
    by (auto simp add: checkParameter_def split: if_splits)
  with Error show ?thesis by (simp add: PgHaMain_def)
next
  case (Undefined x)
  then show ?thesis by (simp add: PgHaMain_def)
next
  case SelfDeadlock
  then show ?thesis by (simp add: PgHaMain_def)
qed

lemma PgHaMasterLoop_iteration_with_outcome:
  assumes "held_lwlocks s = []" and "pgha_my_conninfo s = Some ci"
  shows "PgHaMasterLoop_iteration_with healthy w s =
     (let steps = claimed_steps healthy w s;
          reload = (got_sighup s \<or> sighup_arrives w);
          swept = (PgHaCtl s)
                    \<lparr>nodes := map (doHeartbeat_body (net w) (am_master s)) (nodes (PgHaCtl s))\<rparr>;
          s' = s\<lparr>PgHaCtl := (if 1 < n_nodes (PgHaCtl s) then swept else PgHaCtl s),
                 got_sighup := False,
                 got_sigterm := sigterm_arrives w,
                 pgha_keepalives_time :=
                   (if reload then conf_keepalives_time w else pgha_keepalives_time s),
                 pgha_retry_count :=
                   (if reload then conf_retry_count w else pgha_retry_count s),
                 calls := calls s @ steps\<rparr>
      in if got_sigterm s then Return (Some True) (s\<lparr>calls := calls s @ steps\<rparr>)
         else if postmaster_death w
           then Return (Some False)
                  (s\<lparr>got_sighup := reload, got_sigterm := sigterm_arrives w,
                     calls := calls s @ steps\<rparr>)
         else if 1 < n_nodes (PgHaCtl s) \<and> in_syncrep s \<and> \<not> healthy
                 \<and> (\<not> execSQL (net w) ci alter_system_sql \<or> \<not> kill_succeeds w)
           then Error FailoverActionFailed s'
         else Return None s')"
  using assms
  by (auto simp add: PgHaMasterLoop_iteration_with_def claimed_steps_def noted_def Let_def
       get_hanode_count_result doHeartbeat_result and_then_def changeToAsync_def am_master_def)

lemma claimed_steps_members:
  "(Call_doHeartbeat \<in> set (claimed_steps healthy w s) \<longleftrightarrow>
      \<not> got_sigterm s \<and> \<not> postmaster_death w \<and> 1 < n_nodes (PgHaCtl s))
   \<and> (Call_checkClusterStatus \<in> set (claimed_steps healthy w s) \<longleftrightarrow>
      \<not> got_sigterm s \<and> \<not> postmaster_death w \<and> 1 < n_nodes (PgHaCtl s) \<and> in_syncrep s)
   \<and> (Call_changeToAsync \<in> set (claimed_steps healthy w s) \<longleftrightarrow>
      \<not> got_sigterm s \<and> \<not> postmaster_death w \<and> 1 < n_nodes (PgHaCtl s) \<and> in_syncrep s
      \<and> \<not> healthy)"
  by (simp add: claimed_steps_def)

text \<open>
  Claim C8. An iteration is the test of the loop condition followed by the body.
  For a worker that does not hold the registry lock and whose own connection
  string is set, the outcome of one iteration is fixed in full, whatever the
  evaluation would answer:
  \<^item> when a shutdown is pending at the test, the loop returns true and nothing else
    is done;
  \<^item> otherwise the worker waits, and when the postmaster has died returns false
    with no further step;
  \<^item> otherwise a pending SIGHUP is cleared and the configuration reread, the count
    is taken, and only when it exceeds 1 the registry is swept; only after a sweep
    and only when \<open>in_syncrep\<close> is set the cluster is evaluated; only when the
    evaluation does not answer healthy the switch to asynchronous replication is
    attempted, and the iteration ends in its failure exactly when the statement or
    the signal to the postmaster fails. With a count of at most 1 the registry is
    left as it was.
  The calls made are those of \<open>claimed_steps\<close>, in the order of \<open>claimed_order\<close>. A
  SIGTERM that arrives during the wait does not change the steps of the iteration:
  it is seen by the test that opens the next one. The lock and the connection string
  are as before, so the same holds of the next iteration. The code runs the
  iteration with \<open>checkClusterStatus\<close> as the evaluation. A worker started in
  recovery never enters this loop: \<open>PgHaMain\<close> ends without any of these calls.
\<close>

theorem PgHaMasterLoop_iteration_order:
  "(held_lwlocks s = [] \<and> pgha_my_conninfo s = Some ci \<longrightarrow>
       (let steps = claimed_steps healthy w s;
            reload = (got_sighup s \<or> sighup_arrives w);
            swept = (PgHaCtl s)
                      \<lparr>nodes := map (doHeartbeat_body (net w) (am_master s)) (nodes (PgHaCtl s))\<rparr>;
            s' = s\<lparr>PgHaCtl := (if 1 < n_nodes (PgHaCtl s) then swept else PgHaCtl s),
                   got_sighup := False,
                   got_sigterm := sigterm_arrives w,
                   pgha_keepalives_time :=
                     (if reload then conf_keepalives_time w else pgha_keepalives_time s),
                   pgha_retry_count :=
                     (if reload then conf_retry_count w else pgha_retry_count s),
                   calls := calls s @ steps\<rparr>
        in PgHaMasterLoop_iteration_with healthy w s =
             (if got_sigterm s then Return (Some True) (s\<lparr>calls := calls s @ steps\<rparr>)
              else if postmaster_death w
                then Return (Some False)
                       (s\<lparr>got_sighup := reload, got_sigterm := sigterm_arrives w,
                          calls := calls s @ steps\<rparr>)
              else if 1 < n_nodes (PgHaCtl s) \<and> in_syncrep s \<and> \<not> healthy
                      \<and> (\<not> execSQL (net w) ci alter_system_sql \<or> \<not> kill_succeeds w)
                then Error FailoverActionFailed s'
              else Return None s')
           \<and> sorted_wrt (<) (map claimed_order steps)
           \<and> (Call_doHeartbeat \<in> set steps \<longleftrightarrow>
                 \<not> got_sigterm s \<and> \<not> postmaster_death w \<and> 1 < n_nodes (PgHaCtl s))
           \<and> (Call_checkClusterStatus \<in> set steps \<longleftrightarrow>
                 \<not> got_sigterm s \<and> \<not> postmaster_death w \<and> 1 < n_nodes (PgHaCtl s)
                 \<and> in_syncrep s)
           \<and> (Call_changeToAsync \<in> set steps \<longleftrightarrow>
                 \<not> got_sigterm s \<and> \<not> postmaster_death w \<and> 1 < n_nodes (PgHaCtl s)
                 \<and> in_syncrep s \<and> \<not> healthy)))
   \<and> PgHaMasterLoop_iteration w s = PgHaMasterLoop_iteration_with checkClusterStatus w s
   \<and> (InRecovery s \<longrightarrow>
        (case PgHaMain ws s of
           Some (Return b s') \<Rightarrow> b \<and> calls s' = calls s
         | Some (Error e s') \<Rightarrow> calls s' = calls s
         | Some _ \<Rightarrow> True
         | None \<Rightarrow> False))"
proof (intro conjI impI)
  assume pre: "held_lwlocks s = [] \<and> pgha_my_conninfo s = Some ci"
  from pre PgHaMasterLoop_iteration_with_outcome [of s ci healthy w]
    claimed_steps_in_order [of healthy w s] claimed_steps_members [of healthy w s]
  show "let steps = claimed_steps healthy w s;
            reload = (got_sighup s \<or> sighup_arrives w);
            swept = (PgHaCtl s)
                      \<lparr>nodes := map (doHeartbeat_body (net w) (am_master s)) (nodes (PgHaCtl s))\<rparr>;
            s' = s\<lparr>PgHaCtl := (if 1 < n_nodes (PgHaCtl s) then swept else PgHaCtl s),
                   got_sighup := False,
                   got_sigterm := sigterm_arrives w,
                   pgha_keepalives_time :=
                     (if reload then conf_keepalives_time w else pgha_keepalives_time s),
                   pgha_retry_count :=
                     (if reload then conf_retry_count w else pgha_retry_count s),
                   calls := calls s @ steps\<rparr>
        in PgHaMasterLoop_iteration_with healthy w s =
             (if got_sigterm s then Return (Some True) (s\<lparr>calls := calls s @ steps\<rparr>)
              else if postmaster_death w
                then Return (Some False)
                       (s\<lparr>got_sighup := reload, got_sigterm := sigterm_arrives w,
                          calls := calls s @ steps\<rparr>)
              else if 1 < n_nodes (PgHaCtl s) \<and> in_syncrep s \<and> \<not> healthy
                      \<and> (\<not> execSQL (net w) ci alter_system_sql \<or> \<not> kill_succeeds w)
                then Error FailoverActionFailed s'
              else Return None s')
           \<and> sorted_wrt (<) (map claimed_order steps)
           \<and> (Call_doHeartbeat \<in> set steps \<longleftrightarrow>
                 \<not> got_sigterm s \<and> \<not> postmaster_death w \<and> 1 < n_nodes (PgHaCtl s))
           \<and> (Call_checkClusterStatus \<in> set steps \<longleftrightarrow>
                 \<not> got_sigterm s \<and> \<not> postmaster_death w \<and> 1 < n_nodes (PgHaCtl s)
                 \<and> in_syncrep s)
           \<and> (Call_changeToAsync \<in> set steps \<longleftrightarrow>
                 \<not> got_sigterm s \<and> \<not> postmaster_death w \<and> 1 < n_nodes (PgHaCtl s)
                 \<and> in_syncrep s \<and> \<not> healthy)"
    unfolding Let_def by blast
next
  show "PgHaMasterLoop_iteration w s = PgHaMasterLoop_iteration_with checkClusterStatus w s"
    by (simp add: PgHaMasterLoop_iteration_def)
next
  assume "InRecovery s"
  then show "case PgHaMain ws s of
           Some (Return b s') \<Rightarrow> b \<and> calls s' = calls s
         | Some (Error e s') \<Rightarrow> calls s' = calls s
         | Some _ \<Rightarrow> True
         | None \<Rightarrow> False"
    by (rule PgHaMain_standby)
qed

text \<open>
  A primary in synchronous replication with three registered nodes, woken by a
  SIGHUP. As the code runs it, the iteration reloads, counts, sweeps (the reachable
  peer ends at 0, the unreachable one at 3) and evaluates, and the loop goes on.
  Were the evaluation to answer that the cluster is not healthy while the signal
  to the postmaster fails, the same iteration would end in the failure of the
  switch, after the sweep. A standby worker registers itself and ends with no call
  noted.
\<close>

theorem PgHaMasterLoop_iteration_order_witness:
  "PgHaMasterLoop_iteration reload_wake cluster_worker =
     Return None
       (cluster_worker
          \<lparr>PgHaCtl := \<lparr>n_nodes = 3,
                       nodes = [node_a, peer_up\<lparr>retry_count := 0\<rparr>,
                                peer_down\<lparr>retry_count := 3\<rparr>, zero_node]\<rparr>,
           pgha_keepalives_time := 7,
           calls := [Test_got_sigterm, Call_WaitLatch, Call_ProcessConfigFile,
                     Call_get_hanode_count, Call_doHeartbeat, Call_checkClusterStatus]\<rparr>)
   \<and> PgHaMasterLoop_iteration_with False (reload_wake\<lparr>kill_succeeds := False\<rparr>) cluster_worker =
     Error FailoverActionFailed
       (cluster_worker
          \<lparr>PgHaCtl := \<lparr>n_nodes = 3,
                       nodes = [node_a, peer_up\<lparr>retry_count := 0\<rparr>,
                                peer_down\<lparr>retry_count := 3\<rparr>, zero_node]\<rparr>,
           pgha_keepalives_time := 7,
           calls := [Test_got_sigterm, Call_WaitLatch, Call_ProcessConfigFile,
                     Call_get_hanode_count, Call_doHeartbeat, Call_checkClusterStatus,
                     Call_changeToAsync]\<rparr>)
   \<and> (\<exists>s'. PgHaMain [reload_wake] standby_worker = Some (Return True s') \<and> calls s' = [])"
proof -
  have pre: "held_lwlocks cluster_worker = [] \<and> pgha_my_conninfo cluster_worker = Some ''host=a''"
    by (simp add: cluster_worker_def)
  have probes: "execSQL example_net ''host=up'' ''SELECT 1''"
    "\<not> execSQL example_net ''host=down'' ''SELECT 1''"
    "execSQL example_net ''host=a'' alter_system_sql"
    by (simp_all add: execSQL_def example_net_def)
  have sweep: "map (doHeartbeat_body example_net True) [node_a, peer_up, peer_down, zero_node] =
      [node_a, peer_up\<lparr>retry_count := 0\<rparr>, peer_down\<lparr>retry_count := 3\<rparr>, zero_node]"
    using probes by (simp add: doHeartbeat_body_def node_a_def peer_up_def peer_down_def zero_node_def)
  from PgHaMasterLoop_iteration_order
         [of cluster_worker "''host=a''" checkClusterStatus reload_wake] pre
  have "PgHaMasterLoop_iteration reload_wake cluster_worker =
          PgHaMasterLoop_iteration_with checkClusterStatus reload_wake cluster_worker"
    and "let steps = claimed_steps checkClusterStatus reload_wake cluster_worker;
            reload = (got_sighup cluster_worker \<or> sighup_arrives reload_wake);
            swept = (PgHaCtl cluster_worker)
                      \<lparr>nodes := map (doHeartbeat_body (net reload_wake) (am_master cluster_worker))
                                   (nodes (PgHaCtl cluster_worker))\<rparr>;
            s' = cluster_worker
                  \<lparr>PgHaCtl := (if 1 < n_nodes (PgHaCtl cluster_worker) then swept
                               else PgHaCtl cluster_worker),
                   got_sighup := False,
                   got_sigterm := sigterm_arrives reload_wake,
                   pgha_keepalives_time :=
                     (if reload then conf_keepalives_time reload_wake
                      else pgha_keepalives_time cluster_worker),
                   pgha_retry_count :=
                     (if reload then conf_retry_count reload_wake
                      else pgha_retry_count cluster_worker),
                   calls := calls cluster_worker @ steps\<rparr>
        in PgHaMasterLoop_iteration_with checkClusterStatus reload_wake cluster_worker =
             (if got_sigterm cluster_worker
              then Return (Some True) (cluster_worker\<lparr>calls := calls cluster_worker @ steps\<rparr>)
              else if postmaster_death reload_wake
                then Return (Some False)
                       (cluster_worker\<lparr>got_sighup := reload, got_sigterm := sigterm_arrives reload_wake,
                          calls := calls cluster_worker @ steps\<rparr>)
              else if 1 < n_nodes (PgHaCtl cluster_worker) \<and> in_syncrep cluster_worker
                      \<and> \<not> checkClusterStatus
                      \<and> (\<not> execSQL (net reload_wake) ''host=a'' alter_system_sql
                          \<or> \<not> kill_succeeds reload_wake)
                then Error FailoverActionFailed s'
              else Return None s')"
    unfolding Let_def by blast+
  then have first: "PgHaMasterLoop_iteration reload_wake cluster_worker =
     Return None
       (cluster_worker
          \<lparr>PgHaCtl := \<lparr>n_nodes = 3,
                       nodes = [node_a, peer_up\<lparr>retry_count := 0\<rparr>,
                                peer_down\<lparr>retry_count := 3\<rparr>, zero_node]\<rparr>,
           pgha_keepalives_time := 7,
           calls := [Test_got_sigterm, Call_WaitLatch, Call_ProcessConfigFile,
                     Call_get_hanode_count, Call_doHeartbeat, Call_checkClusterStatus]\<rparr>)"
    using sweep
    by (simp add: cluster_worker_def reload_wake_def claimed_steps_def checkClusterStatus_def
          am_master_def)
  let ?w = "reload_wake\<lparr>kill_succeeds := False\<rparr>"
  from PgHaMasterLoop_iteration_order [of cluster_worker "''host=a''" False ?w] pre
  have "let steps = claimed_steps False ?w cluster_worker;
            reload = (got_sighup cluster_worker \<or> sighup_arrives ?w);
            swept = (PgHaCtl cluster_worker)
                      \<lparr>nodes := map (doHeartbeat_body (net ?w) (am_master cluster_worker))
                                   (nodes (PgHaCtl cluster_worker))\<rparr>;
            s' = cluster_worker
                  \<lparr>PgHaCtl := (if 1 < n_nodes (PgHaCtl cluster_worker) then swept
                               else PgHaCtl cluster_worker),
                   got_sighup := False,
                   got_sigterm := sigterm_arrives ?w,
                   pgha_keepalives_time :=
                     (if reload then conf_keepalives_time ?w
                      else pgha_keepalives_time cluster_worker),
                   pgha_retry_count :=
                     (if reload then conf_retry_count ?w
                      else pgha_retry_count cluster_worker),
                   calls := calls cluster_worker @ steps\<rparr>
        in PgHaMasterLoop_iteration_with False ?w cluster_worker =
             (if got_sigterm cluster_worker
              then Return (Some True) (cluster_worker\<lparr>calls := calls cluster_worker @ steps\<rparr>)
              else if postmaster_death ?w
                then Return (Some False)
                       (cluster_worker\<lparr>got_sighup := reload, got_sigterm := sigterm_arrives ?w,
                          calls := calls cluster_worker @ steps\<rparr>)
              else if 1 < n_nodes (PgHaCtl cluster_worker) \<and> in_syncrep cluster_worker
                      \<and> \<not> False
                      \<and> (\<not> execSQL (net ?w) ''host=a'' alter_system_sql
                          \<or> \<not> kill_succeeds ?w)
                then Error FailoverActionFailed s'
              else Return None s')"
    unfolding Let_def by blast
  then have second: "PgHaMasterLoop_iteration_with False ?w cluster_worker =
     Error FailoverActionFailed
       (cluster_worker
          \<lparr>PgHaCtl := \<lparr>n_nodes = 3,
                       nodes = [node_a, peer_up\<lparr>retry_count := 0\<rparr>,
                                peer_down\<lparr>retry_count := 3\<rparr>, zero_node]\<rparr>,
           pgha_keepalives_time := 7,
           calls := [Test_got_sigterm, Call_WaitLatch, Call_ProcessConfigFile,
                     Call_get_hanode_count, Call_doHeartbeat, Call_checkClusterStatus,
                     Call_changeToAsync]\<rparr>)"
    using sweep
    by (simp add: cluster_worker_def reload_wake_def claimed_steps_def am_master_def)
  have run: "PgHaMain [reload_wake] standby_worker =
      Some (Return True
        (standby_worker
           \<lparr>PgHaCtl := \<lparr>n_nodes = 1,
                        nodes = [zero_node\<lparr>name := ''b'', conninfo := ''host=b'', type := CHR ''s'',
                                            in_use := True, myself := True\<rparr>, zero_node]\<rparr>\<rparr>))"
    by (simp add: PgHaMain_def standby_worker_def checkParameter_def pgha_shmem_startup_def
          zero_node_def addNode_def and_then_def LWLockAcquire_def LWLockRelease_def
          debug_show_def am_master_def NAMEDATALEN_def MAXPGPATH_def Let_def PgHaStandbyLoop_def)
  have "InRecovery standby_worker"
    by (simp add: standby_worker_def)
  with PgHaMasterLoop_iteration_order [of standby_worker _ _ _ "[reload_wake]"]
  have "case PgHaMain [reload_wake] standby_worker of
           Some (Return b s') \<Rightarrow> b \<and> calls s' = calls standby_worker
         | Some (Error e s') \<Rightarrow> calls s' = calls standby_worker
         | Some _ \<Rightarrow> True
         | None \<Rightarrow> False"
    by blast
  then have third: "\<exists>s'. PgHaMain [reload_wake] standby_worker = Some (Return True s') \<and> calls s' = []"
    by (simp add: run) (simp add: standby_worker_def)
  from first second third show ?thesis by blast
qed

section \<open>Where the code departs from the specification\<close>

lemmas registry_eval =
  empty_backend_def pgha_shmem_startup_def zero_node_def add_node_def del_node_def
  addNode_def delNode_def and_then_def LWLockAcquire_def LWLockRelease_def debug_show_def
  am_master_def NAMEDATALEN_def MAXPGPATH_def Let_def

text \<open>
  Claim C1. In a registry of three slots, \<open>add_node a\<close>, \<open>add_node b\<close>, \<open>del_node a\<close>,
  \<open>add_node c\<close> all return true. \<open>delNode\<close> fills the slot of \<open>a\<close> from \<open>nodes[n_nodes]\<close>,
  the free slot behind the tail, not from the tail \<open>nodes[n_nodes - 1]\<close>, so slot 0
  becomes free while \<open>b\<close> stays in slot 1 and \<open>n_nodes\<close> drops to 1; the next insert
  then writes \<open>c\<close> over \<open>b\<close>. At the end \<open>n_nodes\<close> is 2 and the only slot in use
  holds \<open>c\<close>.
\<close>

theorem insert_after_remove_overwrites:
  "\<exists>s'. and_then (add_node ''a'' ''host=a'' (empty_backend 3)) (\<lambda>_ s1.
           and_then (add_node ''b'' ''host=b'' s1) (\<lambda>_ s2.
             and_then (del_node ''a'' s2) (\<lambda>_ s3. add_node ''c'' ''host=c'' s3))) = Return True s'
        \<and> n_nodes (PgHaCtl s') = 2
        \<and> map name (filter in_use (nodes (PgHaCtl s'))) = [''c'']
        \<and> n_nodes (PgHaCtl s') \<noteq> int (length (filter in_use (nodes (PgHaCtl s'))))"
  by (simp add: registry_eval numeral_3_eq_3)

text \<open>
  Claim C2. With a retry threshold of 4 and a peer whose counter is 5 the
  specification calls the cluster degraded; \<open>checkClusterStatus\<close> reports it healthy.
\<close>

theorem checkClusterStatus_ignores_counters:
  "spec_degraded 4 [node_a, peer_failing] \<and> checkClusterStatus = True"
  by (simp add: spec_degraded_def node_a_def peer_failing_def checkClusterStatus_def)

text \<open>
  Claim C7. In a registry of two slots two inserts succeed and fill it; the third
  insert of a fresh name reports no error: it goes on to write \<open>nodes[2]\<close>, one slot
  past the end of the array.
\<close>

theorem insert_into_full_registry:
  "\<exists>s1 s2. add_node ''a'' ''host=a'' (empty_backend 2) = Return True s1
         \<and> add_node ''b'' ''host=b'' s1 = Return True s2
         \<and> n_nodes (PgHaCtl s2) = int (pgha_max_nodes s2)
         \<and> add_node ''c'' ''host=c'' s2 = Undefined (NodesIndexOutOfRange 2)"
  by (simp add: registry_eval numeral_2_eq_2 pgha_max_nodes_def)

text \<open>
  The same for every registry that is full: a fresh name is not refused.
\<close>

lemma addNode_full_registry:
  assumes "held_lwlocks s = []"
    and "\<not> (\<exists>node \<in> set (nodes (PgHaCtl s)). in_use node \<and> name node = nm)"
    and "n_nodes (PgHaCtl s) = int (pgha_max_nodes s)"
  shows "addNode nm ci self dup_ok s = Undefined (NodesIndexOutOfRange (int (pgha_max_nodes s)))"
proof -
  have "addNode_loop (nodes (PgHaCtl s)) nm dup_ok = None"
    using assms(2) by (simp add: addNode_loop_None)
  with assms(1,3) show ?thesis
    by (simp add: addNode_def LWLockAcquire_free and_then_def pgha_max_nodes_def Let_def)
qed

text \<open>
  Claim C9. A duplicate-tolerant insert of a name that is in use returns true with
  the registry lock still held in exclusive mode.
\<close>

theorem addNode_tolerated_keeps_lock:
  "addNode ''a'' ''host=a'' False True one_node_backend =
     Return True (one_node_backend\<lparr>held_lwlocks := [LW_EXCLUSIVE]\<rparr>)"
  by (simp add: one_node_backend_def node_a_def zero_node_def addNode_def and_then_def
        LWLockAcquire_def)

text \<open>
  Its caller \<open>join_node\<close> then asks for the same lock in shared mode and never
  returns.
\<close>

lemma join_node_again_blocks:
  "join_node ''a'' ''host=a'' ok_fcinfo stack_nulls one_node_backend = SelfDeadlock"
  by (simp add: join_node_def ok_fcinfo_def one_node_backend_def node_a_def zero_node_def
        addNode_def and_then_def LWLockAcquire_def am_master_def)

text \<open>The other ways out of the registry operations give the lock back.\<close>

lemma delNode_found_releases:
  assumes "held_lwlocks s = []" and "delNode nm s = Return b s'"
  shows "held_lwlocks s' = []"
  using assms
  by (auto simp add: delNode_def and_then_def LWLockAcquire_free LWLockRelease_def
        debug_show_result Let_def split: option.splits if_splits)

lemma addNode_fresh_releases:
  assumes "held_lwlocks s = []" and "addNode nm ci self dup_ok s = Return b s'"
    and "\<not> (\<exists>node \<in> set (nodes (PgHaCtl s)). in_use node \<and> name node = nm)"
  shows "held_lwlocks s' = []"
proof -
  have "addNode_loop (nodes (PgHaCtl s)) nm dup_ok = None"
    using assms(3) by (simp add: addNode_loop_None)
  with assms(1,2) show ?thesis
    by (auto simp add: addNode_def and_then_def LWLockAcquire_free LWLockRelease_def
          debug_show_result Let_def split: if_splits)
qed

lemma get_hanode_count_releases:
  assumes "held_lwlocks s = []" and "get_hanode_count s = Return n s'"
  shows "held_lwlocks s' = []"
  using assms by (simp add: get_hanode_count_result)

end
